theory Spec2Isabelle
  imports Complex_Main
begin

section \<open>Python values used by the form cleaners\<close>

text \<open>
  The form cleaners of the law-office application are Python methods of Django forms.
  A Python \<open>str\<close> is modelled as a \<^typ>\<open>string\<close> whose characters are the code
  points below 256; on that range the regular expression class \<open>\d\<close> is exactly the
  ASCII digits, and \<open>str.isdigit\<close> additionally holds for the three superscript
  digits (code points 178, 179 and 185).

  A cleaner either returns the cleaned value or raises. \<open>ValidationError\<close> is the
  exception the framework turns into a form error (the rejection of the input); the
  other constructors are the Python exceptions that a character conversion or an
  index out of range would raise, which no caller catches.
\<close>

datatype message =
    CPF_invalido                     \<comment> \<open>"CPF invalido."\<close>
  | CNPJ_invalido                    \<comment> \<open>"CNPJ invalido."\<close>
  | CPF_11_ou_CNPJ_14                \<comment> \<open>"CPF deve ter 11 digitos ou CNPJ deve ter 14 digitos."\<close>
  | Cliente_ja_cadastrado            \<comment> \<open>"Ja existe um cliente cadastrado com este CPF/CNPJ."\<close>
  | Telefone_pelo_menos_10           \<comment> \<open>"Telefone deve ter pelo menos 10 digitos."\<close>
  | Telefone_10_ou_11                \<comment> \<open>"Telefone deve ter 10 ou 11 digitos."\<close>
  | CNPJ_14_digitos                  \<comment> \<open>"CNPJ deve ter 14 digitos."\<close>
  | Valor_maior_que_zero             \<comment> \<open>"O valor deve ser maior que zero."\<close>
  | Valor_muito_alto                 \<comment> \<open>"O valor e muito alto."\<close>
  | Valor_total_maior_que_zero       \<comment> \<open>"O valor total deve ser maior que zero."\<close>
  | Valor_total_muito_alto           \<comment> \<open>"O valor total e muito alto."\<close>
  | Data_pagamento_obrigatoria       \<comment> \<open>"Data de pagamento e obrigatoria quando o status e Pago."\<close>
  | Status_deve_ser_pago             \<comment> \<open>"Status deve ser Pago quando a data de pagamento e informada."\<close>
  | Processo_ou_cliente_movimentacao \<comment> \<open>"E necessario informar pelo menos um processo ou cliente para a movimentacao."\<close>
  | Processo_ou_cliente_documento    \<comment> \<open>"... para o documento."\<close>
  | Processo_ou_cliente_compromisso  \<comment> \<open>"... para o compromisso."\<close>
  | Cliente_nao_corresponde          \<comment> \<open>"O cliente selecionado nao corresponde ao cliente do processo."\<close>

datatype error = ValidationError message | ValueError | IndexError

text \<open>The character class \<open>\d\<close>, and \<open>re.sub(r'\D', '', s)\<close>.\<close>

definition is_decimal :: "char \<Rightarrow> bool" where
  "is_decimal c = (48 \<le> (of_char c :: nat) \<and> (of_char c :: nat) \<le> 57)"

definition re_sub_non_digits :: "string \<Rightarrow> string" where
  "re_sub_non_digits s = filter is_decimal s"

text \<open>\<open>str.isdigit\<close> on one character, and \<open>''.join(filter(str.isdigit, s))\<close>.\<close>

definition str_isdigit :: "char \<Rightarrow> bool" where
  "str_isdigit c =
     (is_decimal c \<or> (of_char c :: nat) = 178 \<or> (of_char c :: nat) = 179
      \<or> (of_char c :: nat) = 185)"

definition join_filter_isdigit :: "string \<Rightarrow> string" where
  "join_filter_isdigit s = filter str_isdigit s"

text \<open>\<open>int(c)\<close> for a one-character string: raises \<open>ValueError\<close> unless \<open>c\<close> is a decimal digit.\<close>

definition py_int :: "char \<Rightarrow> error + int" where
  "py_int c = (if is_decimal c then Inr (int (of_char c) - 48) else Inl ValueError)"

text \<open>\<open>xs[i]\<close> for a non-negative index: raises \<open>IndexError\<close> out of range.\<close>

definition py_index :: "'a list \<Rightarrow> nat \<Rightarrow> error + 'a" where
  "py_index xs i = (if i < length xs then Inr (xs ! i) else Inl IndexError)"

text \<open>\<open>s[lo:hi]\<close> and \<open>s[lo:]\<close> for non-negative bounds: slices never raise.\<close>

definition py_slice :: "'a list \<Rightarrow> nat \<Rightarrow> nat \<Rightarrow> 'a list" where
  "py_slice s lo hi = take (hi - lo) (drop lo s)"

definition py_slice_from :: "'a list \<Rightarrow> nat \<Rightarrow> 'a list" where
  "py_slice_from s lo = drop lo s"

text \<open>
  \<open>sum(...)\<close> over a generator whose items may raise: the first exception leaves the sum.
\<close>

fun py_sum :: "(error + int) list \<Rightarrow> error + int" where
  "py_sum [] = Inr 0"
| "py_sum (x # xs) =
     (case x of
        Inl e \<Rightarrow> Inl e
      | Inr v \<Rightarrow> (case py_sum xs of Inl e \<Rightarrow> Inl e | Inr s \<Rightarrow> Inr (v + s)))"

text \<open>The generator item \<open>int(s[i]) * w\<close>, where the weight \<open>w\<close> may itself be an indexing.\<close>

definition int_at :: "string \<Rightarrow> nat \<Rightarrow> error + int" where
  "int_at s i = (case py_index s i of Inl e \<Rightarrow> Inl e | Inr c \<Rightarrow> py_int c)"

definition int_at_times :: "string \<Rightarrow> nat \<Rightarrow> error + int \<Rightarrow> error + int" where
  "int_at_times s i w =
     (case int_at s i of
        Inl e \<Rightarrow> Inl e
      | Inr v \<Rightarrow> (case w of Inl e \<Rightarrow> Inl e | Inr k \<Rightarrow> Inr (v * k)))"

text \<open>\<open>digito = 0 if resto < 2 else 11 - resto\<close>, with \<open>resto = soma % 11\<close>.\<close>

definition digito_verificador :: "int \<Rightarrow> int" where
  "digito_verificador soma = (let resto = soma mod 11 in if resto < 2 then 0 else 11 - resto)"

section \<open>The client form: tax identifier\<close>

text \<open>\<open>ClienteForm._validar_cpf\<close> (clientes/forms.py).\<close>

definition validar_cpf :: "string \<Rightarrow> error + bool" where
  "validar_cpf cpf =
     (if length cpf \<noteq> 11 then Inr False
      else
        (case py_index cpf 0 of
           Inl e \<Rightarrow> Inl e
         | Inr c0 \<Rightarrow>
             if cpf = replicate 11 c0 then Inr False
             else
               (case py_sum (map (\<lambda>i. int_at_times cpf i (Inr (10 - int i))) [0..<9]) of
                  Inl e \<Rightarrow> Inl e
                | Inr soma1 \<Rightarrow>
                    (case int_at cpf 9 of
                       Inl e \<Rightarrow> Inl e
                     | Inr d9 \<Rightarrow>
                         if d9 \<noteq> digito_verificador soma1 then Inr False
                         else
                           (case py_sum (map (\<lambda>i. int_at_times cpf i (Inr (11 - int i))) [0..<10]) of
                              Inl e \<Rightarrow> Inl e
                            | Inr soma2 \<Rightarrow>
                                (case int_at cpf 10 of
                                   Inl e \<Rightarrow> Inl e
                                 | Inr d10 \<Rightarrow> Inr (d10 = digito_verificador soma2)))))))"

text \<open>\<open>ClienteForm._validar_cnpj\<close> (clientes/forms.py).\<close>

definition pesos1 :: "int list" where
  "pesos1 = [5, 4, 3, 2, 9, 8, 7, 6, 5, 4, 3, 2]"

definition pesos2 :: "int list" where
  "pesos2 = [6, 5, 4, 3, 2, 9, 8, 7, 6, 5, 4, 3, 2]"

definition validar_cnpj :: "string \<Rightarrow> error + bool" where
  "validar_cnpj cnpj =
     (if length cnpj \<noteq> 14 then Inr False
      else
        (case py_index cnpj 0 of
           Inl e \<Rightarrow> Inl e
         | Inr c0 \<Rightarrow>
             if cnpj = replicate 14 c0 then Inr False
             else
               (case py_sum (map (\<lambda>i. int_at_times cnpj i (py_index pesos1 i)) [0..<12]) of
                  Inl e \<Rightarrow> Inl e
                | Inr soma1 \<Rightarrow>
                    (case int_at cnpj 12 of
                       Inl e \<Rightarrow> Inl e
                     | Inr d12 \<Rightarrow>
                         if d12 \<noteq> digito_verificador soma1 then Inr False
                         else
                           (case py_sum (map (\<lambda>i. int_at_times cnpj i (py_index pesos2 i)) [0..<13]) of
                              Inl e \<Rightarrow> Inl e
                            | Inr soma2 \<Rightarrow>
                                (case int_at cnpj 13 of
                                   Inl e \<Rightarrow> Inl e
                                 | Inr d13 \<Rightarrow> Inr (d13 = digito_verificador soma2)))))))"

text \<open>
  The stored clients, as far as the duplicate query reads them: the primary key and the
  stored tax identifier. \<open>instance_pk\<close> is \<open>self.instance.pk\<close>, absent for a new client.
\<close>

record cliente =
  pk :: nat
  cpf_cnpj :: string

text \<open>
  \<open>Cliente.objects.filter(cpf_cnpj=v)\<close>, with \<open>.exclude(pk=self.instance.pk)\<close> when the
  form edits a stored client (\<open>if self.instance.pk\<close> is false for \<open>None\<close> and for 0).
\<close>

definition existing_clientes :: "cliente list \<Rightarrow> nat option \<Rightarrow> string \<Rightarrow> cliente list" where
  "existing_clientes objects instance_pk v =
     (case instance_pk of
        None \<Rightarrow> filter (\<lambda>c. cpf_cnpj c = v) objects
      | Some p \<Rightarrow>
          if p = 0 then filter (\<lambda>c. cpf_cnpj c = v) objects
          else filter (\<lambda>c. pk c \<noteq> p) (filter (\<lambda>c. cpf_cnpj c = v) objects))"

text \<open>
  \<open>ClienteForm.clean_cpf_cnpj\<close> (clientes/forms.py). The argument is
  \<open>self.cleaned_data.get('cpf_cnpj')\<close>: \<open>None\<close> or a string; both \<open>None\<close> and the empty
  string fail the test \<open>if cpf_cnpj\<close> and are returned as they are.
  \<open>check_cpf_cnpj\<close> is the \<open>if len(...) == 11 / elif len(...) == 14 / else\<close> block of the
  method, which either raises or falls through to the duplicate query.
\<close>

definition check_cpf_cnpj :: "string \<Rightarrow> error + unit" where
  "check_cpf_cnpj d =
     (if length d = 11 then
        (case validar_cpf d of
           Inl e \<Rightarrow> Inl e
         | Inr ok \<Rightarrow> if ok then Inr () else Inl (ValidationError CPF_invalido))
      else if length d = 14 then
        (case validar_cnpj d of
           Inl e \<Rightarrow> Inl e
         | Inr ok \<Rightarrow> if ok then Inr () else Inl (ValidationError CNPJ_invalido))
      else Inl (ValidationError CPF_11_ou_CNPJ_14))"

definition clean_cpf_cnpj ::
  "cliente list \<Rightarrow> nat option \<Rightarrow> string option \<Rightarrow> error + string option" where
  "clean_cpf_cnpj objects instance_pk value =
     (case value of
        None \<Rightarrow> Inr None
      | Some raw \<Rightarrow>
          if raw = [] then Inr (Some raw)
          else
            (case check_cpf_cnpj (re_sub_non_digits raw) of
               Inl e \<Rightarrow> Inl e
             | Inr u \<Rightarrow>
                 if existing_clientes objects instance_pk (re_sub_non_digits raw) \<noteq> []
                 then Inl (ValidationError Cliente_ja_cadastrado)
                 else Inr (Some (re_sub_non_digits raw))))"

section \<open>Phone cleaners\<close>

text \<open>\<open>ClienteForm.clean_telefone\<close> (clientes/forms.py).\<close>

definition ClienteForm_clean_telefone :: "string option \<Rightarrow> error + string option" where
  "ClienteForm_clean_telefone value =
     (case value of
        None \<Rightarrow> Inr None
      | Some telefone \<Rightarrow>
          if telefone = [] then Inr (Some telefone)
          else
            (let telefone_numerico = re_sub_non_digits telefone in
             if length telefone_numerico < 10 then Inl (ValidationError Telefone_pelo_menos_10)
             else if length telefone_numerico = 10 then
               Inr (Some (''('' @ py_slice telefone_numerico 0 2 @ '') ''
                          @ py_slice telefone_numerico 2 6 @ ''-''
                          @ py_slice_from telefone_numerico 6))
             else if length telefone_numerico = 11 then
               Inr (Some (''('' @ py_slice telefone_numerico 0 2 @ '') ''
                          @ py_slice telefone_numerico 2 7 @ ''-''
                          @ py_slice_from telefone_numerico 7))
             else Inl (ValidationError Telefone_10_ou_11)))"

text \<open>\<open>ConfiguracaoForm.clean_telefone\<close> (core/forms.py).\<close>

definition ConfiguracaoForm_clean_telefone :: "string option \<Rightarrow> error + string option" where
  "ConfiguracaoForm_clean_telefone value =
     (case value of
        None \<Rightarrow> Inr None
      | Some telefone \<Rightarrow>
          if telefone = [] then Inr (Some telefone)
          else
            (let telefone_limpo = join_filter_isdigit telefone in
             if length telefone_limpo < 10 then Inl (ValidationError Telefone_pelo_menos_10)
             else if length telefone_limpo = 10 then
               Inr (Some (''('' @ py_slice telefone_limpo 0 2 @ '') ''
                          @ py_slice telefone_limpo 2 6 @ ''-''
                          @ py_slice_from telefone_limpo 6))
             else if length telefone_limpo = 11 then
               Inr (Some (''('' @ py_slice telefone_limpo 0 2 @ '') ''
                          @ py_slice telefone_limpo 2 7 @ ''-''
                          @ py_slice_from telefone_limpo 7))
             else Inr (Some telefone)))"

text \<open>\<open>PerfilUsuarioForm.clean_telefone\<close> (core/forms.py), written out again in the source.\<close>

definition PerfilUsuarioForm_clean_telefone :: "string option \<Rightarrow> error + string option" where
  "PerfilUsuarioForm_clean_telefone value =
     (case value of
        None \<Rightarrow> Inr None
      | Some telefone \<Rightarrow>
          if telefone = [] then Inr (Some telefone)
          else
            (let telefone_limpo = join_filter_isdigit telefone in
             if length telefone_limpo < 10 then Inl (ValidationError Telefone_pelo_menos_10)
             else if length telefone_limpo = 10 then
               Inr (Some (''('' @ py_slice telefone_limpo 0 2 @ '') ''
                          @ py_slice telefone_limpo 2 6 @ ''-''
                          @ py_slice_from telefone_limpo 6))
             else if length telefone_limpo = 11 then
               Inr (Some (''('' @ py_slice telefone_limpo 0 2 @ '') ''
                          @ py_slice telefone_limpo 2 7 @ ''-''
                          @ py_slice_from telefone_limpo 7))
             else Inr (Some telefone)))"

section \<open>The system configuration form: company identifier\<close>

text \<open>
  \<open>ConfiguracaoForm.clean_cnpj\<close> (core/forms.py). \<open>len(set(cnpj_limpo))\<close> counts the
  distinct characters.
\<close>

definition ConfiguracaoForm_clean_cnpj :: "string option \<Rightarrow> error + string option" where
  "ConfiguracaoForm_clean_cnpj value =
     (case value of
        None \<Rightarrow> Inr None
      | Some cnpj \<Rightarrow>
          if cnpj = [] then Inr (Some cnpj)
          else
            (let cnpj_limpo = join_filter_isdigit cnpj in
             if length cnpj_limpo \<noteq> 14 then Inl (ValidationError CNPJ_14_digitos)
             else if length (remdups cnpj_limpo) = 1 then Inl (ValidationError CNPJ_invalido)
             else
               Inr (Some (py_slice cnpj_limpo 0 2 @ ''.'' @ py_slice cnpj_limpo 2 5 @ ''.''
                          @ py_slice cnpj_limpo 5 8 @ ''/'' @ py_slice cnpj_limpo 8 12 @ ''-''
                          @ py_slice_from cnpj_limpo 12))))"

section \<open>Monetary fields\<close>

text \<open>
  A \<open>Decimal\<close> is an exact finite decimal fraction, modelled as a rational number.
  \<open>FinanceiroForm.clean_valor\<close> and \<open>OrcamentoForm.clean_valor_total\<close> (financeiro/forms.py).
\<close>

definition FinanceiroForm_clean_valor :: "rat option \<Rightarrow> error + rat option" where
  "FinanceiroForm_clean_valor value =
     (case value of
        None \<Rightarrow> Inr None
      | Some valor \<Rightarrow>
          if valor \<le> 0 then Inl (ValidationError Valor_maior_que_zero)
          else if valor > 99999999999 / 100 then Inl (ValidationError Valor_muito_alto)
          else Inr (Some valor))"

definition OrcamentoForm_clean_valor_total :: "rat option \<Rightarrow> error + rat option" where
  "OrcamentoForm_clean_valor_total value =
     (case value of
        None \<Rightarrow> Inr None
      | Some valor \<Rightarrow>
          if valor \<le> 0 then Inl (ValidationError Valor_total_maior_que_zero)
          else if valor > 99999999999 / 100 then Inl (ValidationError Valor_total_muito_alto)
          else Inr (Some valor))"

section \<open>Form-level validation of financial records, documents and appointments\<close>

text \<open>
  A case (\<open>Processo\<close>) carries its own client. The selected client and the case's client
  are stored rows; \<open>processo.cliente != cliente\<close> compares model instances, which the
  framework does by primary key. A date is a day number; the form-level checks only
  test whether one was supplied (a date object is never false).
\<close>

record processo =
  processo_pk :: nat
  processo_cliente :: cliente

type_synonym date = int

definition model_ne :: "cliente \<Rightarrow> cliente \<Rightarrow> bool" where
  "model_ne a b = (pk a \<noteq> pk b)"

text \<open>
  The entries of \<open>cleaned_data\<close> that \<open>FinanceiroForm.clean\<close> reads (financeiro/forms.py);
  an entry is \<open>None\<close> when the field was left empty or failed its own validation.
\<close>

record financeiro_cleaned_data =
  fin_status :: "string option"
  fin_data_pagamento :: "date option"
  fin_processo :: "processo option"
  fin_cliente :: "cliente option"

definition FinanceiroForm_clean :: "financeiro_cleaned_data \<Rightarrow> error + financeiro_cleaned_data" where
  "FinanceiroForm_clean cleaned_data =
     (if fin_status cleaned_data = Some ''pago'' \<and> fin_data_pagamento cleaned_data = None
      then Inl (ValidationError Data_pagamento_obrigatoria)
      else if fin_data_pagamento cleaned_data \<noteq> None \<and> fin_status cleaned_data \<noteq> Some ''pago''
      then Inl (ValidationError Status_deve_ser_pago)
      else if fin_processo cleaned_data = None \<and> fin_cliente cleaned_data = None
      then Inl (ValidationError Processo_ou_cliente_movimentacao)
      else
        (case fin_processo cleaned_data of
           None \<Rightarrow> Inr cleaned_data
         | Some p \<Rightarrow>
             (case fin_cliente cleaned_data of
                None \<Rightarrow> Inr cleaned_data
              | Some c \<Rightarrow>
                  if model_ne (processo_cliente p) c
                  then Inl (ValidationError Cliente_nao_corresponde)
                  else Inr cleaned_data)))"

text \<open>The entries that \<open>DocumentoForm.clean\<close> (documentos/forms.py) reads.\<close>

record documento_cleaned_data =
  doc_processo :: "processo option"
  doc_cliente :: "cliente option"

definition DocumentoForm_clean :: "documento_cleaned_data \<Rightarrow> error + documento_cleaned_data" where
  "DocumentoForm_clean cleaned_data =
     (if doc_processo cleaned_data = None \<and> doc_cliente cleaned_data = None
      then Inl (ValidationError Processo_ou_cliente_documento)
      else
        (case doc_processo cleaned_data of
           None \<Rightarrow> Inr cleaned_data
         | Some p \<Rightarrow>
             (case doc_cliente cleaned_data of
                None \<Rightarrow> Inr cleaned_data
              | Some c \<Rightarrow>
                  if model_ne (processo_cliente p) c
                  then Inl (ValidationError Cliente_nao_corresponde)
                  else Inr cleaned_data)))"

text \<open>The entries that \<open>AgendaForm.clean\<close> (agenda/forms.py) reads.\<close>

record agenda_cleaned_data =
  age_processo :: "processo option"
  age_cliente :: "cliente option"

definition AgendaForm_clean :: "agenda_cleaned_data \<Rightarrow> error + agenda_cleaned_data" where
  "AgendaForm_clean cleaned_data =
     (if age_processo cleaned_data = None \<and> age_cliente cleaned_data = None
      then Inl (ValidationError Processo_ou_cliente_compromisso)
      else
        (case age_processo cleaned_data of
           None \<Rightarrow> Inr cleaned_data
         | Some p \<Rightarrow>
             (case age_cliente cleaned_data of
                None \<Rightarrow> Inr cleaned_data
              | Some c \<Rightarrow>
                  if model_ne (processo_cliente p) c
                  then Inl (ValidationError Cliente_nao_corresponde)
                  else Inr cleaned_data)))"

section \<open>The specification's vocabulary\<close>

text \<open>
  The definitions of this section follow the words of the specification, not the code:
  the numeric value of the digit at a position, the check digit of a weighted sum
  (0 if the remainder modulo 11 is below 2, else 11 minus the remainder), the two
  check-digit equations of each form of the tax identifier, a string that is one
  character repeated, the punctuated canonical forms, and acceptance of a verdict.
\<close>

definition digit :: "string \<Rightarrow> nat \<Rightarrow> int" where
  "digit d i = int (of_char (d ! i)) - 48"

definition spec_check_digit :: "int \<Rightarrow> int" where
  "spec_check_digit s = (if s mod 11 < 2 then 0 else 11 - s mod 11)"

definition spec_cpf_ok :: "string \<Rightarrow> bool" where
  "spec_cpf_ok d =
     (digit d 9 = spec_check_digit (\<Sum>i = 0..8. digit d i * (10 - int i)) \<and>
      digit d 10 = spec_check_digit (\<Sum>i = 0..9. digit d i * (11 - int i)))"

definition spec_cnpj_ok :: "string \<Rightarrow> bool" where
  "spec_cnpj_ok d =
     (digit d 12 =
        spec_check_digit (\<Sum>i = 0..11. digit d i * [5, 4, 3, 2, 9, 8, 7, 6, 5, 4, 3, 2] ! i) \<and>
      digit d 13 =
        spec_check_digit (\<Sum>i = 0..12. digit d i * [6, 5, 4, 3, 2, 9, 8, 7, 6, 5, 4, 3, 2] ! i))"

definition single_repeated :: "string \<Rightarrow> bool" where
  "single_repeated d = list_all (\<lambda>c. c = hd d) d"

definition accepted :: "error + 'a \<Rightarrow> bool" where
  "accepted r = (case r of Inl e \<Rightarrow> False | Inr v \<Rightarrow> True)"

text \<open>\<open>DDD.DDD.DDD-DD\<close> and \<open>DD.DDD.DDD/DDDD-DD\<close>, character by character.\<close>

definition punctuated_cpf :: "string \<Rightarrow> string" where
  "punctuated_cpf d =
     [d ! 0, d ! 1, d ! 2, CHR ''.'', d ! 3, d ! 4, d ! 5, CHR ''.'', d ! 6, d ! 7, d ! 8,
      CHR ''-'', d ! 9, d ! 10]"

definition punctuated_cnpj :: "string \<Rightarrow> string" where
  "punctuated_cnpj d =
     [d ! 0, d ! 1, CHR ''.'', d ! 2, d ! 3, d ! 4, CHR ''.'', d ! 5, d ! 6, d ! 7, CHR ''/'',
      d ! 8, d ! 9, d ! 10, d ! 11, CHR ''-'', d ! 12, d ! 13]"

section \<open>Facts about the Python primitives\<close>

lemma decimal_re_sub: "list_all is_decimal (re_sub_non_digits raw)"
  by (simp add: re_sub_non_digits_def list_all_iff)

lemma re_sub_decimal: "list_all is_decimal d \<Longrightarrow> re_sub_non_digits d = d"
  by (simp add: re_sub_non_digits_def list_all_iff)

lemma int_at_decimal:
  "list_all is_decimal s \<Longrightarrow> i < length s \<Longrightarrow> int_at s i = Inr (digit s i)"
  by (simp add: int_at_def py_index_def py_int_def digit_def list_all_length)

lemma py_sum_map:
  "(\<And>i. i \<in> set js \<Longrightarrow> f i = Inr (g i)) \<Longrightarrow> py_sum (map f js) = Inr (sum_list (map g js))"
  by (induction js) simp_all

lemma weighted_sum:
  assumes "list_all is_decimal s" and "n \<le> length s"
    and "\<And>i. i < n \<Longrightarrow> w i = Inr (k i)"
  shows "py_sum (map (\<lambda>i. int_at_times s i (w i)) [0..<n]) = Inr (\<Sum>i<n. digit s i * k i)"
proof -
  have "py_sum (map (\<lambda>i. int_at_times s i (w i)) [0..<n])
        = Inr (sum_list (map (\<lambda>i. digit s i * k i) [0..<n]))"
    using assms by (intro py_sum_map) (simp add: int_at_times_def int_at_decimal)
  also have "sum_list (map (\<lambda>i. digit s i * k i) [0..<n]) = (\<Sum>i<n. digit s i * k i)"
    by (simp add: interv_sum_list_conv_sum_set_nat atLeast0LessThan)
  finally show ?thesis .
qed

lemma single_repeated_replicate:
  assumes "d \<noteq> []"
  shows "single_repeated d \<longleftrightarrow> d = replicate (length d) (d ! 0)"
proof
  assume "single_repeated d"
  then have "\<forall>y\<in>set d. y = d ! 0"
    using assms by (simp add: single_repeated_def list_all_iff hd_conv_nth)
  then show "d = replicate (length d) (d ! 0)"
    by (simp add: replicate_length_same)
next
  assume r: "d = replicate (length d) (d ! 0)"
  have "set (replicate (length d) (d ! 0)) \<subseteq> {d ! 0}"
    by (auto simp: set_replicate_conv_if)
  then have "set d \<subseteq> {d ! 0}" using r by simp
  then show "single_repeated d"
    using assms by (auto simp: single_repeated_def list_all_iff hd_conv_nth)
qed

lemma single_repeated_iff:
  assumes "d \<noteq> []"
  shows "single_repeated d \<longleftrightarrow> (\<exists>c. d = replicate (length d) c)"
proof
  assume "single_repeated d"
  then show "\<exists>c. d = replicate (length d) c"
    using single_repeated_replicate[OF assms] by blast
next
  assume "\<exists>c. d = replicate (length d) c"
  then obtain c where c: "d = replicate (length d) c" ..
  have "0 < length d" using assms by simp
  then have "replicate (length d) c ! 0 = c" by (rule nth_replicate)
  then have "d ! 0 = c" using c by simp
  then show "single_repeated d"
    using c single_repeated_replicate[OF assms] by simp
qed

lemma digito_verificador_spec: "digito_verificador s = spec_check_digit s"
  by (simp add: digito_verificador_def spec_check_digit_def Let_def)

lemma below_9: "{..<9::nat} = {0..8}" by auto
lemma below_10: "{..<10::nat} = {0..9}" by auto
lemma below_12: "{..<12::nat} = {0..11}" by auto
lemma below_13: "{..<13::nat} = {0..12}" by auto

section \<open>The two checkers on digit strings\<close>

lemma validar_cpf_decimal:
  assumes "list_all is_decimal d" and "length d = 11"
  shows "validar_cpf d = Inr (\<not> single_repeated d \<and> spec_cpf_ok d)"
proof -
  have ne: "d \<noteq> []" using assms(2) by auto
  have s1: "py_sum (map (\<lambda>i. int_at_times d i (Inr (10 - int i))) [0..<9])
            = Inr (\<Sum>i = 0..8. digit d i * (10 - int i))"
    using weighted_sum[OF assms(1), of 9 "\<lambda>i. Inr (10 - int i)" "\<lambda>i. 10 - int i"] assms(2)
    by (simp add: below_9)
  have s2: "py_sum (map (\<lambda>i. int_at_times d i (Inr (11 - int i))) [0..<10])
            = Inr (\<Sum>i = 0..9. digit d i * (11 - int i))"
    using weighted_sum[OF assms(1), of 10 "\<lambda>i. Inr (11 - int i)" "\<lambda>i. 11 - int i"] assms(2)
    by (simp add: below_10)
  have d9: "int_at d 9 = Inr (digit d 9)" and d10: "int_at d 10 = Inr (digit d 10)"
    using assms by (simp_all add: int_at_decimal)
  have i0: "py_index d 0 = Inr (d ! 0)" using assms(2) by (simp add: py_index_def)
  have rep: "d = replicate 11 (d ! 0) \<longleftrightarrow> single_repeated d"
    using single_repeated_replicate[OF ne] assms(2) by simp
  show ?thesis
    unfolding validar_cpf_def
    by (simp only: assms(2) i0 s1 s2 d9 d10 rep digito_verificador_spec spec_cpf_ok_def
        sum.case simp_thms if_True if_False split: if_splits) auto
qed

lemma pesos1_index: "i < 12 \<Longrightarrow> py_index pesos1 i = Inr ([5, 4, 3, 2, 9, 8, 7, 6, 5, 4, 3, 2] ! i)"
  by (simp add: py_index_def pesos1_def)

lemma pesos2_index:
  "i < 13 \<Longrightarrow> py_index pesos2 i = Inr ([6, 5, 4, 3, 2, 9, 8, 7, 6, 5, 4, 3, 2] ! i)"
  by (simp add: py_index_def pesos2_def)

lemma validar_cnpj_decimal:
  assumes "list_all is_decimal d" and "length d = 14"
  shows "validar_cnpj d = Inr (\<not> single_repeated d \<and> spec_cnpj_ok d)"
proof -
  have ne: "d \<noteq> []" using assms(2) by auto
  have s1: "py_sum (map (\<lambda>i. int_at_times d i (py_index pesos1 i)) [0..<12])
            = Inr (\<Sum>i = 0..11. digit d i * [5, 4, 3, 2, 9, 8, 7, 6, 5, 4, 3, 2] ! i)"
    using weighted_sum[OF assms(1), of 12 "\<lambda>i. py_index pesos1 i"
        "\<lambda>i. [5, 4, 3, 2, 9, 8, 7, 6, 5, 4, 3, 2] ! i"] assms(2) pesos1_index
    by (simp add: below_12)
  have s2: "py_sum (map (\<lambda>i. int_at_times d i (py_index pesos2 i)) [0..<13])
            = Inr (\<Sum>i = 0..12. digit d i * [6, 5, 4, 3, 2, 9, 8, 7, 6, 5, 4, 3, 2] ! i)"
    using weighted_sum[OF assms(1), of 13 "\<lambda>i. py_index pesos2 i"
        "\<lambda>i. [6, 5, 4, 3, 2, 9, 8, 7, 6, 5, 4, 3, 2] ! i"] assms(2) pesos2_index
    by (simp add: below_13)
  have d12: "int_at d 12 = Inr (digit d 12)" and d13: "int_at d 13 = Inr (digit d 13)"
    using assms by (simp_all add: int_at_decimal)
  have i0: "py_index d 0 = Inr (d ! 0)" using assms(2) by (simp add: py_index_def)
  have rep: "d = replicate 14 (d ! 0) \<longleftrightarrow> single_repeated d"
    using single_repeated_replicate[OF ne] assms(2) by simp
  show ?thesis
    unfolding validar_cnpj_def
    by (simp only: assms(2) i0 s1 s2 d12 d13 rep digito_verificador_spec spec_cnpj_ok_def
        sum.case simp_thms if_True if_False split: if_splits) auto
qed

lemma check_cpf_cnpj_decimal:
  assumes "list_all is_decimal d"
  shows "check_cpf_cnpj d =
     (if length d = 11 then
        (if \<not> single_repeated d \<and> spec_cpf_ok d then Inr ()
         else Inl (ValidationError CPF_invalido))
      else if length d = 14 then
        (if \<not> single_repeated d \<and> spec_cnpj_ok d then Inr ()
         else Inl (ValidationError CNPJ_invalido))
      else Inl (ValidationError CPF_11_ou_CNPJ_14))"
  using validar_cpf_decimal[OF assms] validar_cnpj_decimal[OF assms]
  by (simp add: check_cpf_cnpj_def)

section \<open>Claims about the tax identifier\<close>

text \<open>
  C1. For every input whose digits, after every non-digit is stripped, form an
  11-character string that is not one repeated digit, the client form's tax-identifier
  cleaner accepts exactly when the tenth digit equals the check digit of the sum of
  \<open>d[i] * (10 - i)\<close> over \<open>i = 0..8\<close> and the eleventh equals the check digit of the sum
  of \<open>d[i] * (11 - i)\<close> over \<open>i = 0..9\<close>; for a 14-character string the same holds with
  the weights 5,4,3,2,9,8,7,6,5,4,3,2 (against \<open>d[12]\<close>) and 6,5,4,3,2,9,8,7,6,5,4,3,2
  (against \<open>d[13]\<close>). The duplicate query of the cleaner, which the specification leaves
  to the persistence collaborator, is taken to find no other client with these digits.
\<close>

theorem validate_tax_id_check_digits:
  assumes "d = re_sub_non_digits raw"
    and "length d = 11 \<or> length d = 14"
    and "\<not> single_repeated d"
    and "existing_clientes objects instance_pk d = []"
  shows "accepted (clean_cpf_cnpj objects instance_pk (Some raw))
         \<longleftrightarrow> (if length d = 11 then spec_cpf_ok d else spec_cnpj_ok d)"
proof -
  have dec: "list_all is_decimal d" using assms(1) by (simp add: decimal_re_sub)
  have ne: "raw \<noteq> []" using assms(1,2) by (auto simp: re_sub_non_digits_def)
  show ?thesis
    using assms(2,3,4) ne check_cpf_cnpj_decimal[OF dec]
    by (auto simp: clean_cpf_cnpj_def accepted_def assms(1)[symmetric])
qed

theorem validate_tax_id_check_digits_witness:
  "accepted (clean_cpf_cnpj [] None (Some ''11144477735'')) \<and>
   accepted (clean_cpf_cnpj [] None (Some ''11222333000181'')) \<and>
   \<not> accepted (clean_cpf_cnpj [] None (Some ''111.444.777-36''))"
proof -
  have a: "re_sub_non_digits ''11144477735'' = ''11144477735''"
    and b: "re_sub_non_digits ''11222333000181'' = ''11222333000181''"
    and c: "re_sub_non_digits ''111.444.777-36'' = ''11144477736''"
    by code_simp+
  have a1: "\<not> single_repeated ''11144477735''" "spec_cpf_ok ''11144477735''"
    and b1: "\<not> single_repeated ''11222333000181''" "spec_cnpj_ok ''11222333000181''"
    and c1: "\<not> single_repeated ''11144477736''" "\<not> spec_cpf_ok ''11144477736''"
    by code_simp+
  have e: "existing_clientes [] None x = []" for x
    by (simp add: existing_clientes_def)
  show ?thesis
    using validate_tax_id_check_digits[of "''11144477735''" "''11144477735''" "[]" None]
      validate_tax_id_check_digits[of "''11222333000181''" "''11222333000181''" "[]" None]
      validate_tax_id_check_digits[of "''11144477736''" "''111.444.777-36''" "[]" None]
      a b c a1 b1 c1 e
    by simp
qed

text \<open>
  C2. Evaluation of the cleaner at the input \<open>11144477735\<close>: the accepted value it
  returns is the string of stripped digits, which is not the punctuated form
  \<open>111.444.777-35\<close>.
\<close>

theorem validate_tax_id_returns_bare_digits:
  "clean_cpf_cnpj [] None (Some ''11144477735'') = Inr (Some ''11144477735'') \<and>
   punctuated_cpf ''11144477735'' = ''111.444.777-35'' \<and>
   clean_cpf_cnpj [] None (Some ''11144477735'') \<noteq> Inr (Some ''111.444.777-35'')"
  by code_simp

text \<open>
  C3, as amended. For every non-empty input whose digit count after stripping is
  neither 11 nor 14 the cleaner rejects with the wrong-length message; and for no input
  at all does it leave with an exception other than a validation error: the result is
  always an accepted value or a rejection. (The empty input is returned as it is.)
\<close>

theorem validate_tax_id_wrong_length:
  "(raw \<noteq> [] \<and> length (re_sub_non_digits raw) \<noteq> 11 \<and> length (re_sub_non_digits raw) \<noteq> 14
      \<longrightarrow> clean_cpf_cnpj objects instance_pk (Some raw) = Inl (ValidationError CPF_11_ou_CNPJ_14))
   \<and> clean_cpf_cnpj objects instance_pk value \<noteq> Inl ValueError
   \<and> clean_cpf_cnpj objects instance_pk value \<noteq> Inl IndexError"
proof -
  have dec: "list_all is_decimal (re_sub_non_digits s)" for s
    by (rule decimal_re_sub)
  have chk: "check_cpf_cnpj (re_sub_non_digits s) \<noteq> Inl ValueError \<and>
             check_cpf_cnpj (re_sub_non_digits s) \<noteq> Inl IndexError" for s
    by (simp add: check_cpf_cnpj_decimal[OF dec])
  have total: "clean_cpf_cnpj objects instance_pk value \<noteq> Inl ValueError \<and>
               clean_cpf_cnpj objects instance_pk value \<noteq> Inl IndexError"
  proof (cases "value")
    case None
    then show ?thesis by (simp add: clean_cpf_cnpj_def)
  next
    case (Some s)
    then show ?thesis
      using chk[of s] by (auto simp: clean_cpf_cnpj_def split: sum.splits)
  qed
  have wrong: "clean_cpf_cnpj objects instance_pk (Some raw) = Inl (ValidationError CPF_11_ou_CNPJ_14)"
    if "raw \<noteq> []" "length (re_sub_non_digits raw) \<noteq> 11" "length (re_sub_non_digits raw) \<noteq> 14"
    using that by (simp add: clean_cpf_cnpj_def check_cpf_cnpj_def)
  show ?thesis using total wrong by blast
qed

theorem validate_tax_id_wrong_length_witness:
  "clean_cpf_cnpj [] None (Some ''123.456'') = Inl (ValidationError CPF_11_ou_CNPJ_14) \<and>
   clean_cpf_cnpj [] None (Some ''abc'') = Inl (ValidationError CPF_11_ou_CNPJ_14)"
proof -
  have a: "''123.456'' \<noteq> []" "length (re_sub_non_digits ''123.456'') \<noteq> 11"
    "length (re_sub_non_digits ''123.456'') \<noteq> 14"
    and b: "''abc'' \<noteq> []" "length (re_sub_non_digits ''abc'') \<noteq> 11"
    "length (re_sub_non_digits ''abc'') \<noteq> 14"
    by code_simp+
  show ?thesis
    using validate_tax_id_wrong_length[of "''123.456''" "[]" None None]
      validate_tax_id_wrong_length[of "''abc''" "[]" None None] a b
    by blast
qed

theorem validate_tax_id_empty_counterexample:
  "length (re_sub_non_digits '''') \<noteq> 11 \<and> length (re_sub_non_digits '''') \<noteq> 14 \<and>
   clean_cpf_cnpj [] None (Some '''') = Inr (Some '''') \<and>
   clean_cpf_cnpj [] None (Some '''') \<noteq> Inl (ValidationError CPF_11_ou_CNPJ_14)"
  by code_simp

text \<open>
  C4. For every input whose stripped digits are one character repeated 11 or 14 times
  the cleaner rejects (with the message of an invalid CPF, respectively CNPJ), whatever
  the check-digit equations say of it: eleven or fourteen zeros satisfy them.
\<close>

theorem validate_tax_id_trivial_sequence:
  assumes "re_sub_non_digits raw = replicate n c" and "n = 11 \<or> n = 14"
  shows "clean_cpf_cnpj objects instance_pk (Some raw)
         = Inl (ValidationError (if n = 11 then CPF_invalido else CNPJ_invalido))"
proof -
  let ?d = "re_sub_non_digits raw"
  have dec: "list_all is_decimal ?d" by (rule decimal_re_sub)
  have len: "length ?d = n" using assms(1) by simp
  have ne: "?d \<noteq> []" using len assms(2) by auto
  have rne: "raw \<noteq> []" using ne by (auto simp: re_sub_non_digits_def)
  have "\<exists>c. ?d = replicate (length ?d) c" using assms(1) len by auto
  then have rep: "single_repeated ?d" using single_repeated_iff[OF ne] by simp
  show ?thesis
    using assms(2) len rep rne check_cpf_cnpj_decimal[OF dec]
    by (auto simp: clean_cpf_cnpj_def)
qed

theorem validate_tax_id_trivial_sequence_witness:
  "clean_cpf_cnpj [] None (Some ''00000000000'') = Inl (ValidationError CPF_invalido) \<and>
   spec_cpf_ok ''00000000000'' \<and>
   clean_cpf_cnpj [] None (Some ''00.000.000/0000-00'') = Inl (ValidationError CNPJ_invalido) \<and>
   spec_cnpj_ok ''00000000000000'' \<and>
   clean_cpf_cnpj [] None (Some ''11111111111'') = Inl (ValidationError CPF_invalido)"
proof -
  have a: "re_sub_non_digits ''00000000000'' = replicate 11 CHR ''0''"
    and b: "re_sub_non_digits ''00.000.000/0000-00'' = replicate 14 CHR ''0''"
    and c: "re_sub_non_digits ''11111111111'' = replicate 11 CHR ''1''"
    by code_simp+
  have s: "spec_cpf_ok ''00000000000''" "spec_cnpj_ok ''00000000000000''"
    by code_simp+
  show ?thesis
    using validate_tax_id_trivial_sequence[OF a, of "[]" None]
      validate_tax_id_trivial_sequence[OF b, of "[]" None]
      validate_tax_id_trivial_sequence[OF c, of "[]" None] s
    by simp
qed

text \<open>
  C8. Validation of the tax identifier is idempotent: whenever the cleaner accepts an
  input and returns \<open>v\<close>, it accepts \<open>v\<close> and returns \<open>v\<close> again (against the same stored
  clients and the same edited client).
\<close>

theorem validate_tax_id_idempotent:
  assumes "clean_cpf_cnpj objects instance_pk value = Inr v"
  shows "clean_cpf_cnpj objects instance_pk v = Inr v"
proof (cases "value")
  case None
  then show ?thesis using assms by (auto simp: clean_cpf_cnpj_def)
next
  case (Some raw)
  show ?thesis
  proof (cases "raw = []")
    case True
    then show ?thesis using assms Some by (auto simp: clean_cpf_cnpj_def)
  next
    case False
    let ?d = "re_sub_non_digits raw"
    have dec: "list_all is_decimal ?d" by (rule decimal_re_sub)
    from assms Some False obtain u where
      chk: "check_cpf_cnpj ?d = Inr u" and
      ex: "existing_clientes objects instance_pk ?d = []" and
      v: "v = Some ?d"
      by (auto simp: clean_cpf_cnpj_def split: sum.splits if_splits)
    have "length ?d = 11 \<or> length ?d = 14"
      using chk by (auto simp: check_cpf_cnpj_def split: if_splits)
    then have ne: "?d \<noteq> []" by auto
    have again: "re_sub_non_digits ?d = ?d" by (rule re_sub_decimal[OF dec])
    show ?thesis
      using chk ex ne by (simp add: v clean_cpf_cnpj_def again)
  qed
qed

theorem validate_tax_id_idempotent_witness:
  "clean_cpf_cnpj [] None (Some ''111.444.777-35'') = Inr (Some ''11144477735'') \<and>
   clean_cpf_cnpj [] None (Some ''11144477735'') = Inr (Some ''11144477735'')"
proof -
  have a: "clean_cpf_cnpj [] None (Some ''111.444.777-35'') = Inr (Some ''11144477735'')"
    by code_simp
  show ?thesis
    using a validate_tax_id_idempotent[OF a] by simp
qed

section \<open>Claims about the other cleaners\<close>

lemma punctuated_cnpj_slices:
  assumes "length d = 14"
  shows "py_slice d 0 2 @ ''.'' @ py_slice d 2 5 @ ''.'' @ py_slice d 5 8 @ ''/''
         @ py_slice d 8 12 @ ''-'' @ py_slice_from d 12 = punctuated_cnpj d"
proof -
  from assms obtain a0 a1 a2 a3 a4 a5 a6 a7 a8 a9 a10 a11 a12 a13
    where "d = [a0, a1, a2, a3, a4, a5, a6, a7, a8, a9, a10, a11, a12, a13]"
    by (auto simp: eval_nat_numeral length_Suc_conv)
  then show ?thesis
    by (simp add: py_slice_def py_slice_from_def punctuated_cnpj_def)
qed

text \<open>
  C9. The company-identifier cleaner of the system configuration form verifies no check
  digit: every input whose digits form a 14-character string with at least two distinct
  characters is accepted and returned as \<open>DD.DDD.DDD/DDDD-DD\<close>; so is an input whose last
  two digits fail the weighted-sum algorithm of the client form.
\<close>

theorem configuracao_cnpj_no_check_digits:
  assumes "d = join_filter_isdigit raw" and "length d = 14" and "2 \<le> card (set d)"
  shows "ConfiguracaoForm_clean_cnpj (Some raw) = Inr (Some (punctuated_cnpj d))"
proof -
  have ne: "raw \<noteq> []" using assms(1,2) by (auto simp: join_filter_isdigit_def)
  have "length (remdups d) = card (set d)" by (rule length_remdups_card_conv)
  then have two: "length (remdups d) \<noteq> 1" using assms(3) by simp
  show ?thesis
    using ne two assms(2) punctuated_cnpj_slices[OF assms(2)]
    by (simp add: ConfiguracaoForm_clean_cnpj_def assms(1)[symmetric] Let_def)
qed

theorem configuracao_cnpj_no_check_digits_witness:
  "ConfiguracaoForm_clean_cnpj (Some ''11222333000182'') = Inr (Some ''11.222.333/0001-82'') \<and>
   validar_cnpj ''11222333000182'' = Inr False \<and>
   \<not> spec_cnpj_ok ''11222333000182''"
proof -
  have a: "''11222333000182'' = join_filter_isdigit ''11222333000182''"
    and b: "length ''11222333000182'' = 14"
    and c: "2 \<le> card (set ''11222333000182'')"
    and p: "punctuated_cnpj ''11222333000182'' = ''11.222.333/0001-82''"
    and v: "validar_cnpj ''11222333000182'' = Inr False" "\<not> spec_cnpj_ok ''11222333000182''"
    by code_simp+
  show ?thesis
    using configuracao_cnpj_no_check_digits[OF a b c] p v by simp
qed

text \<open>
  C5, as amended. An input whose digit string is longer than 11 digits is rejected by
  the client form's phone cleaner. The phone cleaners of the system configuration form
  and of the user profile form accept it and return the input unchanged; no phone
  cleaner truncates it.
\<close>

theorem phone_longer_than_11_digits:
  "(11 < length (re_sub_non_digits raw)
      \<longrightarrow> ClienteForm_clean_telefone (Some raw) = Inl (ValidationError Telefone_10_ou_11))
   \<and> (11 < length (join_filter_isdigit raw)
      \<longrightarrow> ConfiguracaoForm_clean_telefone (Some raw) = Inr (Some raw)
        \<and> PerfilUsuarioForm_clean_telefone (Some raw) = Inr (Some raw))"
proof -
  have a: "ClienteForm_clean_telefone (Some raw) = Inl (ValidationError Telefone_10_ou_11)"
    if "11 < length (re_sub_non_digits raw)"
  proof -
    have "raw \<noteq> []" using that by (auto simp: re_sub_non_digits_def)
    then show ?thesis using that by (simp add: ClienteForm_clean_telefone_def Let_def)
  qed
  have b: "ConfiguracaoForm_clean_telefone (Some raw) = Inr (Some raw)
           \<and> PerfilUsuarioForm_clean_telefone (Some raw) = Inr (Some raw)"
    if "11 < length (join_filter_isdigit raw)"
  proof -
    have "raw \<noteq> []" using that by (auto simp: join_filter_isdigit_def)
    then show ?thesis
      using that
      by (simp add: ConfiguracaoForm_clean_telefone_def PerfilUsuarioForm_clean_telefone_def Let_def)
  qed
  show ?thesis using a b by blast
qed

theorem phone_longer_than_11_digits_witness:
  "ClienteForm_clean_telefone (Some ''(11) 98765-43210'') = Inl (ValidationError Telefone_10_ou_11) \<and>
   ConfiguracaoForm_clean_telefone (Some ''(11) 98765-43210'') = Inr (Some ''(11) 98765-43210'') \<and>
   PerfilUsuarioForm_clean_telefone (Some ''(11) 98765-43210'') = Inr (Some ''(11) 98765-43210'')"
proof -
  have a: "11 < length (re_sub_non_digits ''(11) 98765-43210'')"
    and b: "11 < length (join_filter_isdigit ''(11) 98765-43210'')"
    by code_simp+
  show ?thesis
    using phone_longer_than_11_digits[of "''(11) 98765-43210''"] a b by blast
qed

theorem phone_longer_than_11_digits_counterexample:
  "11 < length (join_filter_isdigit ''119876543210'') \<and>
   ConfiguracaoForm_clean_telefone (Some ''119876543210'') = Inr (Some ''119876543210'') \<and>
   PerfilUsuarioForm_clean_telefone (Some ''119876543210'') = Inr (Some ''119876543210'')"
  by code_simp

text \<open>
  C6, as amended. The monetary check of the financial record form and of the budget
  form has the fixed bounds 0 and 999999999.99, the lower one exclusive and the upper
  one inclusive: a supplied value is accepted (and returned unchanged) exactly when it
  is greater than 0 and at most 999999999.99, rejected as too low exactly when it is 0
  or less, and rejected as too high exactly when it exceeds 999999999.99.
\<close>

theorem amount_bounds:
  "(FinanceiroForm_clean_valor (Some v) = Inr (Some v) \<longleftrightarrow> 0 < v \<and> v \<le> 99999999999 / 100)
   \<and> (accepted (FinanceiroForm_clean_valor (Some v)) \<longleftrightarrow> 0 < v \<and> v \<le> 99999999999 / 100)
   \<and> (FinanceiroForm_clean_valor (Some v) = Inl (ValidationError Valor_maior_que_zero) \<longleftrightarrow> v \<le> 0)
   \<and> (FinanceiroForm_clean_valor (Some v) = Inl (ValidationError Valor_muito_alto)
        \<longleftrightarrow> 99999999999 / 100 < v)
   \<and> (OrcamentoForm_clean_valor_total (Some v) = Inr (Some v) \<longleftrightarrow> 0 < v \<and> v \<le> 99999999999 / 100)
   \<and> (accepted (OrcamentoForm_clean_valor_total (Some v)) \<longleftrightarrow> 0 < v \<and> v \<le> 99999999999 / 100)
   \<and> (OrcamentoForm_clean_valor_total (Some v) = Inl (ValidationError Valor_total_maior_que_zero)
        \<longleftrightarrow> v \<le> 0)
   \<and> (OrcamentoForm_clean_valor_total (Some v) = Inl (ValidationError Valor_total_muito_alto)
        \<longleftrightarrow> 99999999999 / 100 < v)"
  by (auto simp: FinanceiroForm_clean_valor_def OrcamentoForm_clean_valor_total_def accepted_def)

theorem amount_bounds_witness:
  "accepted (FinanceiroForm_clean_valor (Some (1 / 100))) \<and>
   accepted (FinanceiroForm_clean_valor (Some (99999999999 / 100))) \<and>
   FinanceiroForm_clean_valor (Some (- 1)) = Inl (ValidationError Valor_maior_que_zero) \<and>
   FinanceiroForm_clean_valor (Some 1000000000) = Inl (ValidationError Valor_muito_alto) \<and>
   OrcamentoForm_clean_valor_total (Some 1000000000) = Inl (ValidationError Valor_total_muito_alto)"
  using amount_bounds[of "1 / 100"] amount_bounds[of "99999999999 / 100"]
    amount_bounds[of "- 1"] amount_bounds[of 1000000000]
  by (simp add: accepted_def)

theorem amount_zero_counterexample:
  "FinanceiroForm_clean_valor (Some 0) = Inl (ValidationError Valor_maior_que_zero) \<and>
   OrcamentoForm_clean_valor_total (Some 0) = Inl (ValidationError Valor_total_maior_que_zero)"
  by (simp add: FinanceiroForm_clean_valor_def OrcamentoForm_clean_valor_total_def)

section \<open>Claims about the form-level validation\<close>

text \<open>
  C7, as amended. In the form-level validation of a financial record, a document or an
  appointment with both a case and a client supplied, the submission is accepted only
  when the case's own client is the supplied client, and is rejected whenever they
  differ. The rejection is the inconsistent-link error for a document and for an
  appointment; for a financial record it is that error whenever the rule tying the paid
  status to the payment date, which is checked first, is satisfied.
\<close>

theorem consistent_link:
  "(fin_processo f = Some p \<and> fin_cliente f = Some c \<and> accepted (FinanceiroForm_clean f)
      \<longrightarrow> pk (processo_cliente p) = pk c)
   \<and> (doc_processo d = Some p \<and> doc_cliente d = Some c \<and> accepted (DocumentoForm_clean d)
      \<longrightarrow> pk (processo_cliente p) = pk c)
   \<and> (age_processo a = Some p \<and> age_cliente a = Some c \<and> accepted (AgendaForm_clean a)
      \<longrightarrow> pk (processo_cliente p) = pk c)
   \<and> (doc_processo d = Some p \<and> doc_cliente d = Some c \<and> pk (processo_cliente p) \<noteq> pk c
      \<longrightarrow> DocumentoForm_clean d = Inl (ValidationError Cliente_nao_corresponde))
   \<and> (age_processo a = Some p \<and> age_cliente a = Some c \<and> pk (processo_cliente p) \<noteq> pk c
      \<longrightarrow> AgendaForm_clean a = Inl (ValidationError Cliente_nao_corresponde))
   \<and> (fin_processo f = Some p \<and> fin_cliente f = Some c \<and> pk (processo_cliente p) \<noteq> pk c
      \<longrightarrow> \<not> accepted (FinanceiroForm_clean f))
   \<and> (fin_processo f = Some p \<and> fin_cliente f = Some c \<and> pk (processo_cliente p) \<noteq> pk c
       \<and> (fin_status f = Some ''pago'' \<longleftrightarrow> fin_data_pagamento f \<noteq> None)
      \<longrightarrow> FinanceiroForm_clean f = Inl (ValidationError Cliente_nao_corresponde))"
proof -
  have fin: "pk (processo_cliente p) = pk c"
    if "fin_processo f = Some p" "fin_cliente f = Some c" "accepted (FinanceiroForm_clean f)"
    using that by (auto simp: FinanceiroForm_clean_def accepted_def model_ne_def split: if_splits)
  have doc: "pk (processo_cliente p) = pk c"
    if "doc_processo d = Some p" "doc_cliente d = Some c" "accepted (DocumentoForm_clean d)"
    using that by (auto simp: DocumentoForm_clean_def accepted_def model_ne_def split: if_splits)
  have age: "pk (processo_cliente p) = pk c"
    if "age_processo a = Some p" "age_cliente a = Some c" "accepted (AgendaForm_clean a)"
    using that by (auto simp: AgendaForm_clean_def accepted_def model_ne_def split: if_splits)
  have docr: "DocumentoForm_clean d = Inl (ValidationError Cliente_nao_corresponde)"
    if "doc_processo d = Some p" "doc_cliente d = Some c" "pk (processo_cliente p) \<noteq> pk c"
    using that by (simp add: DocumentoForm_clean_def model_ne_def)
  have ager: "AgendaForm_clean a = Inl (ValidationError Cliente_nao_corresponde)"
    if "age_processo a = Some p" "age_cliente a = Some c" "pk (processo_cliente p) \<noteq> pk c"
    using that by (simp add: AgendaForm_clean_def model_ne_def)
  have finr: "FinanceiroForm_clean f = Inl (ValidationError Cliente_nao_corresponde)"
    if "fin_processo f = Some p" "fin_cliente f = Some c" "pk (processo_cliente p) \<noteq> pk c"
      "fin_status f = Some ''pago'' \<longleftrightarrow> fin_data_pagamento f \<noteq> None"
    using that by (auto simp: FinanceiroForm_clean_def model_ne_def)
  show ?thesis using fin doc age docr ager finr by blast
qed

theorem consistent_link_witness:
  "accepted (FinanceiroForm_clean
      \<lparr>fin_status = Some ''pendente'', fin_data_pagamento = None,
       fin_processo = Some \<lparr>processo_pk = 7, processo_cliente = \<lparr>pk = 1, cpf_cnpj = ''11144477735''\<rparr>\<rparr>,
       fin_cliente = Some \<lparr>pk = 1, cpf_cnpj = ''11144477735''\<rparr>\<rparr>) \<and>
   FinanceiroForm_clean
      \<lparr>fin_status = Some ''pendente'', fin_data_pagamento = None,
       fin_processo = Some \<lparr>processo_pk = 7, processo_cliente = \<lparr>pk = 1, cpf_cnpj = ''11144477735''\<rparr>\<rparr>,
       fin_cliente = Some \<lparr>pk = 2, cpf_cnpj = ''11222333000181''\<rparr>\<rparr>
     = Inl (ValidationError Cliente_nao_corresponde) \<and>
   DocumentoForm_clean
      \<lparr>doc_processo = Some \<lparr>processo_pk = 7, processo_cliente = \<lparr>pk = 1, cpf_cnpj = ''11144477735''\<rparr>\<rparr>,
       doc_cliente = Some \<lparr>pk = 2, cpf_cnpj = ''11222333000181''\<rparr>\<rparr>
     = Inl (ValidationError Cliente_nao_corresponde) \<and>
   AgendaForm_clean
      \<lparr>age_processo = Some \<lparr>processo_pk = 7, processo_cliente = \<lparr>pk = 1, cpf_cnpj = ''11144477735''\<rparr>\<rparr>,
       age_cliente = Some \<lparr>pk = 2, cpf_cnpj = ''11222333000181''\<rparr>\<rparr>
     = Inl (ValidationError Cliente_nao_corresponde)"
proof -
  let ?c1 = "\<lparr>pk = 1, cpf_cnpj = ''11144477735''\<rparr>"
  let ?c2 = "\<lparr>pk = 2, cpf_cnpj = ''11222333000181''\<rparr>"
  let ?p = "\<lparr>processo_pk = 7, processo_cliente = ?c1\<rparr>"
  let ?f = "\<lparr>fin_status = Some ''pendente'', fin_data_pagamento = None,
             fin_processo = Some ?p, fin_cliente = Some ?c2\<rparr>"
  let ?d = "\<lparr>doc_processo = Some ?p, doc_cliente = Some ?c2\<rparr>"
  let ?a = "\<lparr>age_processo = Some ?p, age_cliente = Some ?c2\<rparr>"
  have ok: "accepted (FinanceiroForm_clean
      \<lparr>fin_status = Some ''pendente'', fin_data_pagamento = None,
       fin_processo = Some ?p, fin_cliente = Some ?c1\<rparr>)"
    by (simp add: FinanceiroForm_clean_def accepted_def model_ne_def)
  show ?thesis
    using ok consistent_link[of ?f ?p ?c2 ?d ?a] by simp
qed

theorem consistent_link_counterexample:
  "pk (processo_cliente \<lparr>processo_pk = 7, processo_cliente = \<lparr>pk = 1, cpf_cnpj = ''11144477735''\<rparr>\<rparr>)
     \<noteq> pk \<lparr>pk = 2, cpf_cnpj = ''11222333000181''\<rparr> \<and>
   FinanceiroForm_clean
      \<lparr>fin_status = Some ''pago'', fin_data_pagamento = None,
       fin_processo = Some \<lparr>processo_pk = 7, processo_cliente = \<lparr>pk = 1, cpf_cnpj = ''11144477735''\<rparr>\<rparr>,
       fin_cliente = Some \<lparr>pk = 2, cpf_cnpj = ''11222333000181''\<rparr>\<rparr>
     = Inl (ValidationError Data_pagamento_obrigatoria) \<and>
   FinanceiroForm_clean
      \<lparr>fin_status = Some ''pago'', fin_data_pagamento = None,
       fin_processo = Some \<lparr>processo_pk = 7, processo_cliente = \<lparr>pk = 1, cpf_cnpj = ''11144477735''\<rparr>\<rparr>,
       fin_cliente = Some \<lparr>pk = 2, cpf_cnpj = ''11222333000181''\<rparr>\<rparr>
     \<noteq> Inl (ValidationError Cliente_nao_corresponde)"
  by (simp add: FinanceiroForm_clean_def)

text \<open>
  C10. The financial record form keeps the paid status and the payment date together:
  an accepted submission has the status \<open>pago\<close> exactly when a payment date is supplied;
  the status \<open>pago\<close> without a payment date is rejected, and so is a payment date with
  any other status.
\<close>

theorem paid_status_with_payment_date:
  "(accepted (FinanceiroForm_clean f)
      \<longrightarrow> (fin_status f = Some ''pago'' \<longleftrightarrow> fin_data_pagamento f \<noteq> None))
   \<and> (fin_status f = Some ''pago'' \<and> fin_data_pagamento f = None
      \<longrightarrow> FinanceiroForm_clean f = Inl (ValidationError Data_pagamento_obrigatoria))
   \<and> (fin_data_pagamento f \<noteq> None \<and> fin_status f \<noteq> Some ''pago''
      \<longrightarrow> FinanceiroForm_clean f = Inl (ValidationError Status_deve_ser_pago))"
proof -
  have acc: "fin_status f = Some ''pago'' \<longleftrightarrow> fin_data_pagamento f \<noteq> None"
    if "accepted (FinanceiroForm_clean f)"
    using that by (auto simp: FinanceiroForm_clean_def accepted_def split: if_splits)
  have r1: "FinanceiroForm_clean f = Inl (ValidationError Data_pagamento_obrigatoria)"
    if "fin_status f = Some ''pago''" "fin_data_pagamento f = None"
    using that by (simp add: FinanceiroForm_clean_def)
  have r2: "FinanceiroForm_clean f = Inl (ValidationError Status_deve_ser_pago)"
    if "fin_data_pagamento f \<noteq> None" "fin_status f \<noteq> Some ''pago''"
    using that by (auto simp: FinanceiroForm_clean_def)
  show ?thesis using acc r1 r2 by blast
qed

theorem paid_status_with_payment_date_witness:
  "accepted (FinanceiroForm_clean
      \<lparr>fin_status = Some ''pago'', fin_data_pagamento = Some 739000, fin_processo = None,
       fin_cliente = Some \<lparr>pk = 1, cpf_cnpj = ''11144477735''\<rparr>\<rparr>) \<and>
   FinanceiroForm_clean
      \<lparr>fin_status = Some ''pago'', fin_data_pagamento = None, fin_processo = None,
       fin_cliente = Some \<lparr>pk = 1, cpf_cnpj = ''11144477735''\<rparr>\<rparr>
     = Inl (ValidationError Data_pagamento_obrigatoria) \<and>
   FinanceiroForm_clean
      \<lparr>fin_status = Some ''pendente'', fin_data_pagamento = Some 739000, fin_processo = None,
       fin_cliente = Some \<lparr>pk = 1, cpf_cnpj = ''11144477735''\<rparr>\<rparr>
     = Inl (ValidationError Status_deve_ser_pago)"
proof -
  let ?c = "\<lparr>pk = 1, cpf_cnpj = ''11144477735''\<rparr>"
  have ok: "accepted (FinanceiroForm_clean
      \<lparr>fin_status = Some ''pago'', fin_data_pagamento = Some 739000, fin_processo = None,
       fin_cliente = Some ?c\<rparr>)"
    by (simp add: FinanceiroForm_clean_def accepted_def)
  show ?thesis
    using ok
      paid_status_with_payment_date[of "\<lparr>fin_status = Some ''pago'', fin_data_pagamento = None,
         fin_processo = None, fin_cliente = Some ?c\<rparr>"]
      paid_status_with_payment_date[of "\<lparr>fin_status = Some ''pendente'',
         fin_data_pagamento = Some 739000, fin_processo = None, fin_cliente = Some ?c\<rparr>"]
    by simp
qed

end
